theory Spec2Isabelle
  imports Complex_Main
begin

section \<open>FAIR risk calculator: the evaluator and the Monte Carlo simulator\<close>

text \<open>
  The development embeds \<^verbatim>\<open>fair_calculator.py\<close> (class \<^verbatim>\<open>FAIRCalculator\<close>) and the two
  request handlers of \<^verbatim>\<open>app.py\<close> that call it.

  Numbers come in two readings.  In the first one a Python \<^verbatim>\<open>float\<close> is a \<^typ>\<open>real\<close>: a
  finite value with exact arithmetic.  It carries the properties that do not depend on the
  rounding of the binary format nor on its special values: the classification by
  thresholds, the handlers' checks, what a result depends on, the degenerate simulation,
  the exceptions (the one overflow that decides an exception, that of the width of a range
  in \<^verbatim>\<open>np.random.uniform\<close>, is part of it), and the counterexamples, whose inputs are
  binary fractions on which the floating-point computation is exact as well.  The second
  reading, further below, is the IEEE 754 double with its rounding, its infinities and
  \<^verbatim>\<open>nan\<close>; it carries what the returned record holds and the bucket counts of outcomes
  that overflow.  A Python \<^verbatim>\<open>int\<close> is an \<^typ>\<open>int\<close>.
\<close>

subsection \<open>Python's \<^verbatim>\<open>round(x, ndigits)\<close> and \<^verbatim>\<open>int(x)\<close>\<close>

text \<open>
  \<^verbatim>\<open>round\<close> rounds to the nearest multiple of \<open>10 ^ - ndigits\<close>; a tie goes to the even
  neighbour.
\<close>

definition rint :: "real \<Rightarrow> int" where
  "rint x =
     (let f = \<lfloor>x\<rfloor>; d = x - of_int f in
      if d < 1 / 2 then f
      else if 1 / 2 < d then f + 1
      else if even f then f else f + 1)"

definition py_round :: "real \<Rightarrow> nat \<Rightarrow> real" where
  "py_round x ndigits = of_int (rint (x * 10 ^ ndigits)) / 10 ^ ndigits"

text \<open>\<^verbatim>\<open>int(x)\<close> of a float truncates towards zero.\<close>

definition py_int :: "real \<Rightarrow> int" where
  "py_int x = (if 0 \<le> x then \<lfloor>x\<rfloor> else \<lceil>x\<rceil>)"

subsection \<open>The calculator object and the evaluator\<close>

text \<open>\<^verbatim>\<open>FAIRCalculator.__init__\<close> stores its four arguments unchanged.\<close>

record FAIRCalculator =
  asset_value :: real
  threat_event_frequency :: real
  vulnerability :: real
  loss_magnitude :: real

definition calculate_loss_event_frequency :: "FAIRCalculator \<Rightarrow> real" where
  "calculate_loss_event_frequency self = threat_event_frequency self * vulnerability self"

definition calculate_annual_loss_expectancy :: "FAIRCalculator \<Rightarrow> real" where
  "calculate_annual_loss_expectancy self =
     (let lef = calculate_loss_event_frequency self in lef * loss_magnitude self)"

definition calculate_single_loss_expectancy :: "FAIRCalculator \<Rightarrow> real" where
  "calculate_single_loss_expectancy self = loss_magnitude self"

text \<open>The dictionary returned by \<^verbatim>\<open>calculate_risk_level\<close>, keys \<^verbatim>\<open>level\<close>, \<^verbatim>\<open>color\<close>, \<^verbatim>\<open>priority\<close>.\<close>

record risk_level_dict =
  level :: string
  color :: string
  priority :: string

definition calculate_risk_level :: "real \<Rightarrow> risk_level_dict" where
  "calculate_risk_level ale =
     (if ale < 10000 then \<lparr>level = ''Low'', color = ''green'', priority = ''P4''\<rparr>
      else if ale < 50000 then \<lparr>level = ''Medium'', color = ''yellow'', priority = ''P3''\<rparr>
      else if ale < 200000 then \<lparr>level = ''High'', color = ''orange'', priority = ''P2''\<rparr>
      else \<lparr>level = ''Critical'', color = ''red'', priority = ''P1''\<rparr>)"

text \<open>
  The dictionary returned by \<^verbatim>\<open>calculate\<close>.  The four keys that echo the inputs carry the
  prefix \<open>in_\<close> here, since the calculator's own fields have their names.
\<close>

record metrics =
  in_asset_value :: real
  in_threat_event_frequency :: real
  in_vulnerability :: real
  in_loss_magnitude :: real
  loss_event_frequency :: real
  single_loss_expectancy :: real
  annual_loss_expectancy :: real
  risk_level :: string
  risk_color :: string
  risk_priority :: string
  risk_exposure_percentage :: real

definition calculate :: "FAIRCalculator \<Rightarrow> metrics" where
  "calculate self =
     (let lef = calculate_loss_event_frequency self;
          ale = calculate_annual_loss_expectancy self;
          sle = calculate_single_loss_expectancy self;
          rl = calculate_risk_level ale;
          risk_exposure_pct =
            (if asset_value self > 0 then ale / asset_value self * 100 else 0)
      in \<lparr>in_asset_value = py_round (asset_value self) 2,
          in_threat_event_frequency = py_round (threat_event_frequency self) 2,
          in_vulnerability = py_round (vulnerability self) 3,
          in_loss_magnitude = py_round (loss_magnitude self) 2,
          loss_event_frequency = py_round lef 3,
          single_loss_expectancy = py_round sle 2,
          annual_loss_expectancy = py_round ale 2,
          risk_level = level rl,
          risk_color = color rl,
          risk_priority = priority rl,
          risk_exposure_percentage = py_round risk_exposure_pct 2\<rparr>)"

subsection \<open>The numpy operations the simulator calls\<close>

text \<open>
  The process-wide generator \<^verbatim>\<open>np.random\<close> is an explicit state: the stream of the unit
  draws (values of the half-open interval from 0 to 1) it will hand out next.
  \<^verbatim>\<open>np.random.uniform(low, high, n)\<close> first computes the width \<open>high - low\<close> and raises
  \<^verbatim>\<open>OverflowError\<close> when it is not finite; a negative \<open>n\<close> then raises \<^verbatim>\<open>ValueError\<close>;
  otherwise it consumes \<open>n\<close> draws \<open>u\<close> and returns \<open>low + (high - low) * u\<close> for each of
  them.  It does not compare \<open>low\<close> and \<open>high\<close> (numpy documents the samples for
  \<open>high < low\<close> as undefined; this is what the generator computes).  Every operation that
  touches the generator returns its outcome, a value or an error, together with the
  generator state it leaves behind.
\<close>

datatype error = ValueError | OverflowError | ZeroDivisionError

type_synonym rng = "nat \<Rightarrow> real"

text \<open>
  The difference of two doubles rounds to an infinity exactly when its magnitude reaches
  the largest double plus half a unit of its last place.
\<close>

definition width_overflows :: "real \<Rightarrow> real \<Rightarrow> bool" where
  "width_overflows low high = (2 ^ 1024 - 2 ^ 970 \<le> \<bar>high - low\<bar>)"

definition np_random_uniform :: "rng \<Rightarrow> real \<Rightarrow> real \<Rightarrow> int \<Rightarrow> (error + real list) \<times> rng" where
  "np_random_uniform g low high n =
     (if width_overflows low high then (Inl OverflowError, g)
      else if n < 0 then (Inl ValueError, g)
      else (Inr (map (\<lambda>i. low + (high - low) * g i) [0..<nat n]), \<lambda>i. g (i + nat n)))"

text \<open>
  Mean, median and population standard deviation.  On an empty array numpy returns
  \<^verbatim>\<open>nan\<close> with a warning for each of the three; the simulator calls \<^verbatim>\<open>np.min\<close> right after
  them, which raises on an empty array, so these values are only ever used on a non-empty
  array.
\<close>

definition np_mean :: "real list \<Rightarrow> real" where
  "np_mean xs = sum_list xs / real (length xs)"

definition np_median :: "real list \<Rightarrow> real" where
  "np_median xs =
     (let s = sort xs; n = length s in
      if even n then (s ! (n div 2 - 1) + s ! (n div 2)) / 2 else s ! (n div 2))"

definition np_std :: "real list \<Rightarrow> real" where
  "np_std xs = (let m = np_mean xs in sqrt (np_mean (map (\<lambda>x. \<bar>x - m\<bar> ^ 2) xs)))"

definition np_min :: "real list \<Rightarrow> error + real" where
  "np_min xs = (case xs of [] \<Rightarrow> Inl ValueError | x # r \<Rightarrow> Inr (fold min r x))"

definition np_max :: "real list \<Rightarrow> error + real" where
  "np_max xs = (case xs of [] \<Rightarrow> Inl ValueError | x # r \<Rightarrow> Inr (fold max r x))"

text \<open>
  \<^verbatim>\<open>np.percentile(a, q)\<close> with the default method (linear interpolation): the virtual
  index \<open>(n - 1) * (q / 100)\<close> into the sorted array, the elements at its floor and the next
  position, and the interpolation between them; an index at or beyond the last position
  gives the last element.
\<close>

definition np_percentile :: "real list \<Rightarrow> real \<Rightarrow> real" where
  "np_percentile xs q =
     (let s = sort xs; n = length s;
          virtual_index = real (n - 1) * (q / 100);
          previous_index = nat \<lfloor>virtual_index\<rfloor>;
          gamma = virtual_index - real previous_index
      in if virtual_index \<ge> real (n - 1) then s ! (n - 1)
         else s ! previous_index + (s ! (previous_index + 1) - s ! previous_index) * gamma)"

text \<open>\<^verbatim>\<open>np.sum\<close> of a boolean mask counts the elements that satisfy it.\<close>

definition np_sum_mask :: "(real \<Rightarrow> bool) \<Rightarrow> real list \<Rightarrow> int" where
  "np_sum_mask P xs = int (length (filter P xs))"

subsection \<open>The Monte Carlo simulator\<close>

record percentiles_dict =
  p10th :: real
  p25th :: real
  p50th :: real
  p75th :: real
  p90th :: real
  p95th :: real
  p99th :: real

record risk_distribution_dict =
  low :: int
  medium :: int
  high :: int
  critical :: int

record confidence_dict =
  lower :: real
  upper :: real

record simulation =
  iterations :: int
  mean_ale :: real
  median_ale :: real
  std_dev :: real
  min_ale :: real
  max_ale :: real
  percentiles :: percentiles_dict
  risk_distribution :: risk_distribution_dict
  confidence_95 :: confidence_dict

text \<open>
  \<^verbatim>\<open>monte_carlo_simulation\<close>, lines 110 to 117: the three sample arrays, drawn one after the
  other from the generator, and their element-wise product.
\<close>

definition ale_samples_of ::
  "rng \<Rightarrow> real \<times> real \<Rightarrow> real \<times> real \<Rightarrow> real \<times> real \<Rightarrow> int \<Rightarrow> (error + real list) \<times> rng" where
  "ale_samples_of g tef_range vuln_range loss_range iters =
     (case np_random_uniform g (fst tef_range) (snd tef_range) iters of
        (Inl e, g1) \<Rightarrow> (Inl e, g1)
      | (Inr tef_samples, g1) \<Rightarrow>
     (case np_random_uniform g1 (fst vuln_range) (snd vuln_range) iters of
        (Inl e, g2) \<Rightarrow> (Inl e, g2)
      | (Inr vuln_samples, g2) \<Rightarrow>
     (case np_random_uniform g2 (fst loss_range) (snd loss_range) iters of
        (Inl e, g3) \<Rightarrow> (Inl e, g3)
      | (Inr loss_samples, g3) \<Rightarrow>
          (let lef_samples = map2 (*) tef_samples vuln_samples;
               ale_samples = map2 (*) lef_samples loss_samples
           in (Inr ale_samples, g3)))))"

text \<open>
  Lines 119 to 161: the statistics of the outcome array.  The first call that can raise is
  \<^verbatim>\<open>np.min\<close>; nothing is returned when it does.
\<close>

definition summarise :: "int \<Rightarrow> real list \<Rightarrow> error + simulation" where
  "summarise iters ale_samples =
     (let ale_mean = np_mean ale_samples;
          ale_median = np_median ale_samples;
          ale_std = np_std ale_samples
      in case np_min ale_samples of Inl e \<Rightarrow> Inl e | Inr ale_min \<Rightarrow>
        (case np_max ale_samples of Inl e \<Rightarrow> Inl e | Inr ale_max \<Rightarrow>
           Inr \<lparr>iterations = iters,
                mean_ale = py_round ale_mean 2,
                median_ale = py_round ale_median 2,
                std_dev = py_round ale_std 2,
                min_ale = py_round ale_min 2,
                max_ale = py_round ale_max 2,
                percentiles =
                  \<lparr>p10th = py_round (np_percentile ale_samples 10) 2,
                   p25th = py_round (np_percentile ale_samples 25) 2,
                   p50th = py_round (np_percentile ale_samples 50) 2,
                   p75th = py_round (np_percentile ale_samples 75) 2,
                   p90th = py_round (np_percentile ale_samples 90) 2,
                   p95th = py_round (np_percentile ale_samples 95) 2,
                   p99th = py_round (np_percentile ale_samples 99) 2\<rparr>,
                risk_distribution =
                  \<lparr>low = np_sum_mask (\<lambda>x. x < 10000) ale_samples,
                   medium = np_sum_mask (\<lambda>x. x \<ge> 10000 \<and> x < 50000) ale_samples,
                   high = np_sum_mask (\<lambda>x. x \<ge> 50000 \<and> x < 200000) ale_samples,
                   critical = np_sum_mask (\<lambda>x. x \<ge> 200000) ale_samples\<rparr>,
                confidence_95 =
                  \<lparr>lower = py_round (np_percentile ale_samples (5 / 2)) 2,
                   upper = py_round (np_percentile ale_samples (195 / 2)) 2\<rparr>\<rparr>))"

text \<open>
  The method itself.  It has no parameter besides the three ranges and the iteration
  count, and \<open>self\<close> is not read.
\<close>

definition monte_carlo_simulation ::
  "FAIRCalculator \<Rightarrow> rng \<Rightarrow> real \<times> real \<Rightarrow> real \<times> real \<Rightarrow> real \<times> real \<Rightarrow> int
     \<Rightarrow> (error + simulation) \<times> rng" where
  "monte_carlo_simulation self g tef_range vuln_range loss_range iters =
     (case ale_samples_of g tef_range vuln_range loss_range iters of
        (Inl e, g') \<Rightarrow> (Inl e, g')
      | (Inr ale_samples, g') \<Rightarrow> (summarise iters ale_samples, g'))"

subsection \<open>The request handlers\<close>

text \<open>
  The JSON body of a request is a dictionary from keys to numbers; \<^verbatim>\<open>data.get(k, d)\<close> reads
  it with a default.  A handler answers with the body of a success, with the message of
  its own status-400 answer, or, when the computation raised, with status 500.  On numbers
  nothing that \<^verbatim>\<open>calculate_risk\<close> calls raises, so it has no status-500 answer here.
\<close>

type_synonym json = "string \<rightharpoonup> real"

definition get_default :: "json \<Rightarrow> string \<Rightarrow> real \<Rightarrow> real" where
  "get_default data k d = (case data k of None \<Rightarrow> d | Some v \<Rightarrow> v)"

datatype 'a response = Success 'a | Status400 string | Status500 error

definition calculate_risk :: "json \<Rightarrow> metrics response" where
  "calculate_risk data =
     (let av = get_default data ''asset_value'' 0;
          tef = get_default data ''threat_event_frequency'' 0;
          vuln = get_default data ''vulnerability'' 0;
          lm = get_default data ''loss_magnitude'' 0
      in if av \<le> 0 then Status400 ''Asset value must be greater than 0''
         else
           (let calculator = \<lparr>asset_value = av, threat_event_frequency = tef,
                               vulnerability = vuln, loss_magnitude = lm\<rparr>;
                results = calculate calculator
            in Success results))"

definition run_monte_carlo :: "rng \<Rightarrow> json \<Rightarrow> simulation response \<times> rng" where
  "run_monte_carlo g data =
     (let av = get_default data ''asset_value'' 0;
          tef_min = get_default data ''tef_min'' 1;
          tef_max = get_default data ''tef_max'' 10;
          vuln_min = get_default data ''vuln_min'' (1 / 10);
          vuln_max = get_default data ''vuln_max'' (9 / 10);
          loss_min = get_default data ''loss_min'' 10000;
          loss_max = get_default data ''loss_max'' 100000;
          iters = py_int (get_default data ''iterations'' 10000);
          calculator = \<lparr>asset_value = av,
                          threat_event_frequency = (tef_min + tef_max) / 2,
                          vulnerability = (vuln_min + vuln_max) / 2,
                          loss_magnitude = (loss_min + loss_max) / 2\<rparr>
      in case monte_carlo_simulation calculator g (tef_min, tef_max) (vuln_min, vuln_max)
                (loss_min, loss_max) iters of
           (Inl e, g') \<Rightarrow> (Status500 e, g')
         | (Inr simulation_results, g') \<Rightarrow> (Success simulation_results, g'))"

subsection \<open>Auxiliary notions for the proofs\<close>

text \<open>The interpolation of \<open>np_percentile\<close> at a virtual index of a sorted array.\<close>

definition lerp_at :: "real list \<Rightarrow> real \<Rightarrow> real" where
  "lerp_at s v =
     (if v \<ge> real (length s - 1) then s ! (length s - 1)
      else s ! nat \<lfloor>v\<rfloor> + (s ! (nat \<lfloor>v\<rfloor> + 1) - s ! nat \<lfloor>v\<rfloor>) * (v - real (nat \<lfloor>v\<rfloor>)))"

text \<open>
  A generator state given by its next draws: it hands out the elements of \<open>us\<close> in order
  and the value \<open>d\<close> from then on.
\<close>

definition rng_replay :: "real list \<Rightarrow> real \<Rightarrow> rng" where
  "rng_replay us d = (\<lambda>i. if i < length us then us ! i else d)"

section \<open>Double precision: rounding and the special values\<close>

text \<open>
  Where a property depends on the rounding of the binary format or on its special values,
  a \<^verbatim>\<open>float\<close> is modelled as an IEEE 754 binary64 value: a finite value (the real number
  it stands for; the two zeros are not told apart, no operation below divides by one or
  reads its sign), one of the two infinities, or \<^verbatim>\<open>nan\<close>.
\<close>

datatype double = Finite real | PlusInf | MinusInf | NaN

text \<open>
  The rounding of an exact result to the nearest double, a tie going to the even
  significand: the result is a multiple of \<open>2 ^ (e - 52)\<close>, where \<open>e\<close> is the binary
  exponent of the argument and at least \<open>- 1022\<close> (the subnormal range), and a result of
  magnitude \<open>2 ^ 1024\<close> is an infinity.
\<close>

definition round_to_double :: "real \<Rightarrow> double" where
  "round_to_double x =
     (if x = 0 then Finite 0
      else (let e = max \<lfloor>log 2 \<bar>x\<bar>\<rfloor> (- 1022);
                q = 2 powi (e - 52);
                y = of_int (rint (x / q)) * q
            in if 2 ^ 1024 \<le> \<bar>y\<bar> then (if 0 < x then PlusInf else MinusInf) else Finite y))"

fun is_zero :: "double \<Rightarrow> bool" where
  "is_zero (Finite x) = (x = 0)"
| "is_zero _ = False"

fun is_negative :: "double \<Rightarrow> bool" where
  "is_negative (Finite x) = (x < 0)"
| "is_negative MinusInf = True"
| "is_negative _ = False"

fun is_finite :: "double \<Rightarrow> bool" where
  "is_finite (Finite x) = True"
| "is_finite _ = False"

definition signed_inf :: "bool \<Rightarrow> double" where
  "signed_inf negative = (if negative then MinusInf else PlusInf)"

text \<open>
  Multiplication: the rounded product of two finite values; \<^verbatim>\<open>nan\<close> when an operand is
  \<^verbatim>\<open>nan\<close> or an infinity meets a zero; an infinity with the product's sign otherwise.
\<close>

definition fmul :: "double \<Rightarrow> double \<Rightarrow> double" where
  "fmul a b =
     (case (a, b) of
        (Finite x, Finite y) \<Rightarrow> round_to_double (x * y)
      | _ \<Rightarrow> if a = NaN \<or> b = NaN \<or> is_zero a \<or> is_zero b then NaN
             else signed_inf (is_negative a \<noteq> is_negative b))"

text \<open>Addition and subtraction: opposite infinities give \<^verbatim>\<open>nan\<close>.\<close>

definition fadd :: "double \<Rightarrow> double \<Rightarrow> double" where
  "fadd a b =
     (case (a, b) of
        (Finite x, Finite y) \<Rightarrow> round_to_double (x + y)
      | (NaN, _) \<Rightarrow> NaN
      | (_, NaN) \<Rightarrow> NaN
      | (PlusInf, MinusInf) \<Rightarrow> NaN
      | (MinusInf, PlusInf) \<Rightarrow> NaN
      | (Finite x, _) \<Rightarrow> b
      | _ \<Rightarrow> a)"

fun fneg :: "double \<Rightarrow> double" where
  "fneg (Finite x) = Finite (- x)"
| "fneg PlusInf = MinusInf"
| "fneg MinusInf = PlusInf"
| "fneg NaN = NaN"

definition fsub :: "double \<Rightarrow> double \<Rightarrow> double" where
  "fsub a b = fadd a (fneg b)"

text \<open>
  Division: the rounded quotient of two finite values, a finite value over an infinity is
  zero, an infinity over an infinity is \<^verbatim>\<open>nan\<close>.  Python's \<^verbatim>\<open>/\<close> raises
  \<^verbatim>\<open>ZeroDivisionError\<close> on a zero divisor and never divides by it; \<open>fdiv\<close> has \<^verbatim>\<open>nan\<close>
  in that place, which \<open>py_truediv\<close> never reads.
\<close>

definition fdiv :: "double \<Rightarrow> double \<Rightarrow> double" where
  "fdiv a b =
     (case (a, b) of
        (Finite x, Finite y) \<Rightarrow> (if y = 0 then NaN else round_to_double (x / y))
      | (NaN, _) \<Rightarrow> NaN
      | (_, NaN) \<Rightarrow> NaN
      | (Finite x, _) \<Rightarrow> Finite 0
      | (_, Finite y) \<Rightarrow> signed_inf (is_negative a \<noteq> is_negative b)
      | _ \<Rightarrow> NaN)"

definition py_truediv :: "double \<Rightarrow> double \<Rightarrow> error + double" where
  "py_truediv a b = (if is_zero b then Inl ZeroDivisionError else Inr (fdiv a b))"

text \<open>
  The comparisons of a float with an integer literal \<open>c\<close>, as the source writes them:
  \<^verbatim>\<open>x < c\<close>, \<^verbatim>\<open>x >= c\<close> and \<^verbatim>\<open>x > c\<close>.  They are exact, and every comparison with \<^verbatim>\<open>nan\<close>
  is false.
\<close>

fun flt :: "double \<Rightarrow> real \<Rightarrow> bool" where
  "flt (Finite x) c = (x < c)"
| "flt MinusInf c = True"
| "flt _ c = False"

fun fge :: "double \<Rightarrow> real \<Rightarrow> bool" where
  "fge (Finite x) c = (c \<le> x)"
| "fge PlusInf c = True"
| "fge _ c = False"

fun fgt :: "double \<Rightarrow> real \<Rightarrow> bool" where
  "fgt (Finite x) c = (c < x)"
| "fgt PlusInf c = True"
| "fgt _ c = False"

text \<open>
  Python's \<^verbatim>\<open>round(x, ndigits)\<close> on a float: the double nearest to the exact value of \<open>x\<close>
  rounded to \<open>ndigits\<close> decimals (a tie to the even neighbour); an infinity and \<^verbatim>\<open>nan\<close>
  are returned as they are.
\<close>

fun py_round_d :: "double \<Rightarrow> nat \<Rightarrow> double" where
  "py_round_d (Finite x) ndigits =
     round_to_double (of_int (rint (x * 10 ^ ndigits)) / 10 ^ ndigits)"
| "py_round_d a ndigits = a"

subsection \<open>The evaluator on doubles\<close>

record FAIRCalculator_d =
  asset_value_d :: double
  threat_event_frequency_d :: double
  vulnerability_d :: double
  loss_magnitude_d :: double

definition calculate_loss_event_frequency_d :: "FAIRCalculator_d \<Rightarrow> double" where
  "calculate_loss_event_frequency_d self =
     fmul (threat_event_frequency_d self) (vulnerability_d self)"

definition calculate_annual_loss_expectancy_d :: "FAIRCalculator_d \<Rightarrow> double" where
  "calculate_annual_loss_expectancy_d self =
     (let lef = calculate_loss_event_frequency_d self in fmul lef (loss_magnitude_d self))"

definition calculate_single_loss_expectancy_d :: "FAIRCalculator_d \<Rightarrow> double" where
  "calculate_single_loss_expectancy_d self = loss_magnitude_d self"

definition calculate_risk_level_d :: "double \<Rightarrow> risk_level_dict" where
  "calculate_risk_level_d ale =
     (if flt ale 10000 then \<lparr>level = ''Low'', color = ''green'', priority = ''P4''\<rparr>
      else if flt ale 50000 then \<lparr>level = ''Medium'', color = ''yellow'', priority = ''P3''\<rparr>
      else if flt ale 200000 then \<lparr>level = ''High'', color = ''orange'', priority = ''P2''\<rparr>
      else \<lparr>level = ''Critical'', color = ''red'', priority = ''P1''\<rparr>)"

record metrics_d =
  in_asset_value_d :: double
  in_threat_event_frequency_d :: double
  in_vulnerability_d :: double
  in_loss_magnitude_d :: double
  loss_event_frequency_d :: double
  single_loss_expectancy_d :: double
  annual_loss_expectancy_d :: double
  risk_level_d :: string
  risk_color_d :: string
  risk_priority_d :: string
  risk_exposure_percentage_d :: double

text \<open>
  \<^verbatim>\<open>calculate\<close>: the quotient \<^verbatim>\<open>ale / self.asset_value * 100\<close> is only computed under the
  guard \<^verbatim>\<open>self.asset_value > 0\<close>; otherwise the percentage is the integer 0.
\<close>

definition calculate_d :: "FAIRCalculator_d \<Rightarrow> error + metrics_d" where
  "calculate_d self =
     (let lef = calculate_loss_event_frequency_d self;
          ale = calculate_annual_loss_expectancy_d self;
          sle = calculate_single_loss_expectancy_d self;
          rl = calculate_risk_level_d ale
      in case (if fgt (asset_value_d self) 0
               then (case py_truediv ale (asset_value_d self) of
                       Inl e \<Rightarrow> Inl e
                     | Inr ratio \<Rightarrow> Inr (fmul ratio (Finite 100)))
               else Inr (Finite 0)) of
           Inl e \<Rightarrow> Inl e
         | Inr risk_exposure_pct \<Rightarrow>
             Inr \<lparr>in_asset_value_d = py_round_d (asset_value_d self) 2,
                  in_threat_event_frequency_d = py_round_d (threat_event_frequency_d self) 2,
                  in_vulnerability_d = py_round_d (vulnerability_d self) 3,
                  in_loss_magnitude_d = py_round_d (loss_magnitude_d self) 2,
                  loss_event_frequency_d = py_round_d lef 3,
                  single_loss_expectancy_d = py_round_d sle 2,
                  annual_loss_expectancy_d = py_round_d ale 2,
                  risk_level_d = level rl,
                  risk_color_d = color rl,
                  risk_priority_d = priority rl,
                  risk_exposure_percentage_d = py_round_d risk_exposure_pct 2\<rparr>)"

subsection \<open>The outcomes and the bucket counts of the simulator on doubles\<close>

text \<open>
  \<^verbatim>\<open>np.random.uniform(low, high, n)\<close> first computes the width \<open>high - low\<close> and raises
  \<^verbatim>\<open>OverflowError\<close> when it is not finite; a negative \<open>n\<close> then raises \<^verbatim>\<open>ValueError\<close>;
  otherwise each sample is \<open>low + width * u\<close> for the next unit draw \<open>u\<close>.
\<close>

definition np_random_uniform_d ::
  "rng \<Rightarrow> double \<Rightarrow> double \<Rightarrow> int \<Rightarrow> (error + double list) \<times> rng" where
  "np_random_uniform_d g lo hi n =
     (let width = fsub hi lo in
      if \<not> is_finite width then (Inl OverflowError, g)
      else if n < 0 then (Inl ValueError, g)
      else (Inr (map (\<lambda>i. fadd lo (fmul width (Finite (g i)))) [0..<nat n]),
            \<lambda>i. g (i + nat n)))"

text \<open>\<^verbatim>\<open>monte_carlo_simulation\<close>, lines 110 to 117.\<close>

definition ale_samples_of_d ::
  "rng \<Rightarrow> double \<times> double \<Rightarrow> double \<times> double \<Rightarrow> double \<times> double \<Rightarrow> int
     \<Rightarrow> (error + double list) \<times> rng" where
  "ale_samples_of_d g tef_range vuln_range loss_range iters =
     (case np_random_uniform_d g (fst tef_range) (snd tef_range) iters of
        (Inl e, g1) \<Rightarrow> (Inl e, g1)
      | (Inr tef_samples, g1) \<Rightarrow>
     (case np_random_uniform_d g1 (fst vuln_range) (snd vuln_range) iters of
        (Inl e, g2) \<Rightarrow> (Inl e, g2)
      | (Inr vuln_samples, g2) \<Rightarrow>
     (case np_random_uniform_d g2 (fst loss_range) (snd loss_range) iters of
        (Inl e, g3) \<Rightarrow> (Inl e, g3)
      | (Inr loss_samples, g3) \<Rightarrow>
          (let lef_samples = map2 fmul tef_samples vuln_samples;
               ale_samples = map2 fmul lef_samples loss_samples
           in (Inr ale_samples, g3)))))"

text \<open>
  Lines 137 to 141 and 151 to 156: the four masks and their counts, the
  \<^verbatim>\<open>risk_distribution\<close> entry of the result.
\<close>

definition risk_distribution_d :: "double list \<Rightarrow> risk_distribution_dict" where
  "risk_distribution_d ale_samples =
     \<lparr>low = int (length (filter (\<lambda>x. flt x 10000) ale_samples)),
      medium = int (length (filter (\<lambda>x. fge x 10000 \<and> flt x 50000) ale_samples)),
      high = int (length (filter (\<lambda>x. fge x 50000 \<and> flt x 200000) ale_samples)),
      critical = int (length (filter (\<lambda>x. fge x 200000) ale_samples))\<rparr>"

section \<open>Properties of the rounding\<close>

lemma rint_close: "\<bar>of_int (rint x) - x\<bar> \<le> 1 / 2"
  by (simp add: rint_def Let_def abs_le_iff)

lemma py_round_zero: "py_round 0 n = 0"
  by (simp add: py_round_def rint_def)

lemmas calc_defs = calculate_def calculate_loss_event_frequency_def
  calculate_annual_loss_expectancy_def calculate_single_loss_expectancy_def Let_def

section \<open>The evaluator\<close>

text \<open>
  C2: \<open>calculate_risk_level\<close> classifies by half-open intervals with the thresholds 10,000,
  50,000 and 200,000: below 10,000 it returns Low/green/P4, from 10,000 to below 50,000
  Medium/yellow/P3, from 50,000 to below 200,000 High/orange/P2, and from 200,000 on
  Critical/red/P1.  The six boundary values 9,999.99, 10,000, 49,999.99, 50,000, 199,999.99
  and 200,000 are the instances that follow.
\<close>

theorem risk_level_thresholds:
  "(ale < 10000 \<longrightarrow>
      calculate_risk_level ale = \<lparr>level = ''Low'', color = ''green'', priority = ''P4''\<rparr>) \<and>
   (10000 \<le> ale \<and> ale < 50000 \<longrightarrow>
      calculate_risk_level ale = \<lparr>level = ''Medium'', color = ''yellow'', priority = ''P3''\<rparr>) \<and>
   (50000 \<le> ale \<and> ale < 200000 \<longrightarrow>
      calculate_risk_level ale = \<lparr>level = ''High'', color = ''orange'', priority = ''P2''\<rparr>) \<and>
   (200000 \<le> ale \<longrightarrow>
      calculate_risk_level ale = \<lparr>level = ''Critical'', color = ''red'', priority = ''P1''\<rparr>)"
  by (simp add: calculate_risk_level_def)

text \<open>The boundary values of C2, each obtained from the theorem.\<close>

theorem risk_level_thresholds_witness:
  "calculate_risk_level (999999 / 100) = \<lparr>level = ''Low'', color = ''green'', priority = ''P4''\<rparr> \<and>
   calculate_risk_level 10000 = \<lparr>level = ''Medium'', color = ''yellow'', priority = ''P3''\<rparr> \<and>
   calculate_risk_level (4999999 / 100) = \<lparr>level = ''Medium'', color = ''yellow'', priority = ''P3''\<rparr> \<and>
   calculate_risk_level 50000 = \<lparr>level = ''High'', color = ''orange'', priority = ''P2''\<rparr> \<and>
   calculate_risk_level (19999999 / 100) = \<lparr>level = ''High'', color = ''orange'', priority = ''P2''\<rparr> \<and>
   calculate_risk_level 200000 = \<lparr>level = ''Critical'', color = ''red'', priority = ''P1''\<rparr>"
  using risk_level_thresholds [of "999999 / 100"] risk_level_thresholds [of 10000]
    risk_level_thresholds [of "4999999 / 100"] risk_level_thresholds [of 50000]
    risk_level_thresholds [of "19999999 / 100"] risk_level_thresholds [of 200000]
  by simp



text \<open>
  C1, as stated, fails on the record that \<open>calculate\<close> returns: with threat event frequency 1,
  vulnerability 1/4096 and loss magnitude 4096 the returned loss event frequency is
  \<open>round(0.000244140625, 3) = 0.0\<close>, not 1/4096, and the returned annual loss expectancy 1.0
  is not the returned loss event frequency times the loss magnitude.
\<close>

theorem returned_metrics_counterexample:
  "loss_event_frequency (calculate \<lparr>asset_value = 1000000, threat_event_frequency = 1,
        vulnerability = 1 / 4096, loss_magnitude = 4096\<rparr>) \<noteq> 1 * (1 / 4096) \<and>
   annual_loss_expectancy (calculate \<lparr>asset_value = 1000000, threat_event_frequency = 1,
        vulnerability = 1 / 4096, loss_magnitude = 4096\<rparr>) \<noteq>
   loss_event_frequency (calculate \<lparr>asset_value = 1000000, threat_event_frequency = 1,
        vulnerability = 1 / 4096, loss_magnitude = 4096\<rparr>) * 4096"
  by (simp add: calc_defs py_round_def rint_def)

text \<open>
  C8, as stated, fails on the returned record: with asset value 4096 and an annual loss
  expectancy of 1 the quotient times 100 is 0.0244140625, and the returned percentage is
  \<open>round(0.0244140625, 2) = 0.02\<close>.
\<close>

theorem exposure_counterexample:
  "0 < asset_value \<lparr>asset_value = 4096, threat_event_frequency = 1,
        vulnerability = 1, loss_magnitude = 1\<rparr> \<and>
   risk_exposure_percentage (calculate \<lparr>asset_value = 4096, threat_event_frequency = 1,
        vulnerability = 1, loss_magnitude = 1\<rparr>) \<noteq>
   annual_loss_expectancy (calculate \<lparr>asset_value = 4096, threat_event_frequency = 1,
        vulnerability = 1, loss_magnitude = 1\<rparr>) / 4096 * 100 \<and>
   risk_exposure_percentage (calculate \<lparr>asset_value = 4096, threat_event_frequency = 1,
        vulnerability = 1, loss_magnitude = 1\<rparr>) \<noteq>
   calculate_annual_loss_expectancy \<lparr>asset_value = 4096, threat_event_frequency = 1,
        vulnerability = 1, loss_magnitude = 1\<rparr> / 4096 * 100"
  by (simp add: calc_defs py_round_def rint_def)

section \<open>Properties of the rounding to a double\<close>

lemma floor_log2_eq:
  assumes "2 powi e \<le> \<bar>x\<bar>" "\<bar>x\<bar> < 2 powi (e + 1)"
  shows "\<lfloor>log 2 \<bar>x\<bar>\<rfloor> = e"
proof -
  have "(0::real) < 2 powi e" by simp
  with assms(1) have pos: "0 < \<bar>x\<bar>" by linarith
  have p: "(2::real) powr of_int k = 2 powi k" for k
    by (simp add: powr_real_of_int power_int_def power_one_over inverse_eq_divide)
  have "2 powr (of_int e) \<le> \<bar>x\<bar> \<and> \<bar>x\<bar> < 2 powr (of_int e + 1)"
    using assms p[of e] p[of "e + 1"] by simp
  then show ?thesis using floor_log_eq_powr_iff[of "\<bar>x\<bar>" 2 e] pos by simp
qed

lemma round_to_double_eval:
  assumes "2 powi e \<le> \<bar>x\<bar>" "\<bar>x\<bar> < 2 powi (e + 1)" "- 1022 \<le> e"
  shows "round_to_double x =
     (if 2 ^ 1024 \<le> \<bar>real_of_int (rint (x / 2 powi (e - 52))) * 2 powi (e - 52)\<bar>
      then (if 0 < x then PlusInf else MinusInf)
      else Finite (real_of_int (rint (x / 2 powi (e - 52))) * 2 powi (e - 52)))"
proof -
  have "x \<noteq> 0"
  proof
    assume "x = 0"
    with assms(1) have "(2::real) powi e \<le> 0" by simp
    moreover have "(0::real) < 2 powi e" by simp
    ultimately show False by linarith
  qed
  moreover have "max \<lfloor>log 2 \<bar>x\<bar>\<rfloor> (- 1022) = e"
    using floor_log2_eq[OF assms(1,2)] assms(3) by simp
  ultimately show ?thesis by (simp add: round_to_double_def Let_def)
qed

lemma round_to_double_zero: "round_to_double 0 = Finite 0"
  by (simp add: round_to_double_def)

lemma quantum_half_bound:
  assumes "x \<noteq> 0"
  shows "2 powi (max \<lfloor>log 2 \<bar>x\<bar>\<rfloor> (- 1022) - 52) / 2 \<le> \<bar>x\<bar> / 2 ^ 53 + 1 / 2 ^ 1075"
proof (cases "- 1022 \<le> \<lfloor>log 2 \<bar>x\<bar>\<rfloor>")
  case True
  let ?e = "\<lfloor>log 2 \<bar>x\<bar>\<rfloor>"
  have pos: "0 < \<bar>x\<bar>" using assms by simp
  have p: "(2::real) powr of_int k = 2 powi k" for k
    by (simp add: powr_real_of_int power_int_def power_one_over inverse_eq_divide)
  have "2 powr (of_int ?e) \<le> \<bar>x\<bar>"
    using floor_log_eq_powr_iff[of "\<bar>x\<bar>" 2 ?e] pos by simp
  then have le: "2 powi ?e \<le> \<bar>x\<bar>" by (simp add: p)
  have "(2::real) powi (?e - 52) = 2 powi ?e / 2 ^ 52"
    by (simp add: power_int_diff)
  then have "2 powi (?e - 52) / 2 \<le> \<bar>x\<bar> / 2 ^ 53"
    using le by (simp add: field_simps)
  moreover have "max ?e (- 1022) = ?e" using True by simp
  ultimately show ?thesis by simp
next
  case False
  then have "max \<lfloor>log 2 \<bar>x\<bar>\<rfloor> (- 1022) = - 1022" by simp
  moreover have "(2::real) powi (- 1022 - 52) / 2 = 1 / 2 ^ 1075" by simp
  ultimately show ?thesis by simp
qed

lemma round_to_double_close:
  assumes "\<bar>x\<bar> \<le> 2 ^ 1000"
  shows "\<exists>y. round_to_double x = Finite y \<and> \<bar>y - x\<bar> \<le> \<bar>x\<bar> / 2 ^ 53 + 1 / 2 ^ 1075"
proof (cases "x = 0")
  case True
  then show ?thesis by (simp add: round_to_double_zero)
next
  case False
  define q :: real where "q = 2 powi (max \<lfloor>log 2 \<bar>x\<bar>\<rfloor> (- 1022) - 52)"
  define y where "y = real_of_int (rint (x / q)) * q"
  have q: "0 < q" by (simp add: q_def)
  have "y - x = (real_of_int (rint (x / q)) - x / q) * q"
    using q by (simp add: y_def algebra_simps)
  then have "\<bar>y - x\<bar> = \<bar>real_of_int (rint (x / q)) - x / q\<bar> * q"
    using q by (simp add: abs_mult)
  also have "\<dots> \<le> (1 / 2) * q"
    using rint_close[of "x / q"] q by (intro mult_right_mono) simp_all
  also have "\<dots> \<le> \<bar>x\<bar> / 2 ^ 53 + 1 / 2 ^ 1075"
    using quantum_half_bound[OF False] by (simp add: q_def)
  finally have close: "\<bar>y - x\<bar> \<le> \<bar>x\<bar> / 2 ^ 53 + 1 / 2 ^ 1075" .
  have "\<bar>x\<bar> / 2 ^ 53 \<le> \<bar>x\<bar>" by (simp add: field_simps)
  moreover have "(1::real) / 2 ^ 1075 \<le> 1" by simp
  ultimately have "\<bar>y\<bar> \<le> 2 * \<bar>x\<bar> + 1" using close by linarith
  also have "\<dots> \<le> 2 * 2 ^ 1000 + 1" using assms by simp
  also have "\<dots> < (2::real) ^ 1024" by simp
  finally have "\<not> 2 ^ 1024 \<le> \<bar>y\<bar>" by simp
  then have "round_to_double x = Finite y"
    using False by (simp add: round_to_double_def Let_def q_def y_def)
  with close show ?thesis by blast
qed

lemma py_round_d_close:
  assumes "\<bar>x\<bar> \<le> 2 ^ 999"
  shows "\<exists>y. py_round_d (Finite x) n = Finite y \<and>
           \<bar>y - x\<bar> \<le> 1 / (2 * 10 ^ n) + (\<bar>x\<bar> + 1 / (2 * 10 ^ n)) / 2 ^ 53 + 1 / 2 ^ 1075"
proof -
  define r where "r = real_of_int (rint (x * 10 ^ n)) / 10 ^ n"
  have "r - x = (real_of_int (rint (x * 10 ^ n)) - x * 10 ^ n) / 10 ^ n"
    by (simp add: r_def diff_divide_distrib)
  then have "\<bar>r - x\<bar> = \<bar>real_of_int (rint (x * 10 ^ n)) - x * 10 ^ n\<bar> / 10 ^ n"
    by simp
  also have "\<dots> \<le> (1 / 2) / 10 ^ n"
    using rint_close[of "x * 10 ^ n"] by (intro divide_right_mono) simp_all
  finally have rx: "\<bar>r - x\<bar> \<le> 1 / (2 * 10 ^ n)" by simp
  have "(1::real) \<le> 10 ^ n" by simp
  then have "(1::real) \<le> 2 * 10 ^ n" by linarith
  then have half: "(1::real) / (2 * 10 ^ n) \<le> 1" by (simp add: field_simps)
  have rabs: "\<bar>r\<bar> \<le> \<bar>x\<bar> + 1 / (2 * 10 ^ n)" using rx by linarith
  have "(2::real) ^ 999 + 1 \<le> 2 ^ 1000" by simp
  then have "\<bar>r\<bar> \<le> 2 ^ 1000" using rabs half assms by linarith
  from round_to_double_close[OF this] obtain y where
    y: "round_to_double r = Finite y" "\<bar>y - r\<bar> \<le> \<bar>r\<bar> / 2 ^ 53 + 1 / 2 ^ 1075"
    by blast
  have "\<bar>r\<bar> / 2 ^ 53 \<le> (\<bar>x\<bar> + 1 / (2 * 10 ^ n)) / 2 ^ 53"
    using rabs by (intro divide_right_mono) simp_all
  then have "\<bar>y - x\<bar> \<le> 1 / (2 * 10 ^ n) + (\<bar>x\<bar> + 1 / (2 * 10 ^ n)) / 2 ^ 53 + 1 / 2 ^ 1075"
    using y(2) rx by linarith
  then show ?thesis using y(1) by (simp add: r_def)
qed

section \<open>The evaluator on doubles\<close>

lemma calculate_d_returns:
  "\<exists>m. calculate_d self = Inr m"
proof (cases "fgt (asset_value_d self) 0")
  case True
  then have "\<not> is_zero (asset_value_d self)" by (cases "asset_value_d self") simp_all
  then show ?thesis using True by (simp add: calculate_d_def py_truediv_def Let_def)
next
  case False
  then show ?thesis by (simp add: calculate_d_def Let_def)
qed

text \<open>
  C1, amended: the three methods compute the FAIR formula in double arithmetic, the loss
  event frequency as the rounded product of threat event frequency and vulnerability, the
  annual loss expectancy as the rounded product of that value and the loss magnitude, the
  single loss expectancy as the loss magnitude; \<open>calculate\<close> never raises, and the record it
  returns holds these three values passed through \<^verbatim>\<open>round\<close>, the loss event frequency to 3
  decimals and the two expectancies to 2.  A returned value therefore differs from the
  method's value by at most half a unit of the last decimal kept plus one rounding to a
  double (for method values of magnitude up to \<open>2 ^ 999\<close>).
\<close>

theorem calculate_rounds_double_products:
  "\<exists>m. calculate_d self = Inr m \<and>
     calculate_loss_event_frequency_d self =
       fmul (threat_event_frequency_d self) (vulnerability_d self) \<and>
     calculate_annual_loss_expectancy_d self =
       fmul (calculate_loss_event_frequency_d self) (loss_magnitude_d self) \<and>
     calculate_single_loss_expectancy_d self = loss_magnitude_d self \<and>
     loss_event_frequency_d m = py_round_d (calculate_loss_event_frequency_d self) 3 \<and>
     annual_loss_expectancy_d m = py_round_d (calculate_annual_loss_expectancy_d self) 2 \<and>
     single_loss_expectancy_d m = py_round_d (calculate_single_loss_expectancy_d self) 2 \<and>
     (calculate_loss_event_frequency_d self = Finite x \<and> \<bar>x\<bar> \<le> 2 ^ 999 \<longrightarrow>
        (\<exists>y. loss_event_frequency_d m = Finite y \<and>
           \<bar>y - x\<bar> \<le> 1 / 2000 + (\<bar>x\<bar> + 1 / 2000) / 2 ^ 53 + 1 / 2 ^ 1075)) \<and>
     (calculate_annual_loss_expectancy_d self = Finite z \<and> \<bar>z\<bar> \<le> 2 ^ 999 \<longrightarrow>
        (\<exists>y. annual_loss_expectancy_d m = Finite y \<and>
           \<bar>y - z\<bar> \<le> 1 / 200 + (\<bar>z\<bar> + 1 / 200) / 2 ^ 53 + 1 / 2 ^ 1075))"
proof -
  obtain m where m: "calculate_d self = Inr m" using calculate_d_returns by blast
  have lef: "loss_event_frequency_d m = py_round_d (calculate_loss_event_frequency_d self) 3"
    and ale: "annual_loss_expectancy_d m = py_round_d (calculate_annual_loss_expectancy_d self) 2"
    and sle: "single_loss_expectancy_d m = py_round_d (calculate_single_loss_expectancy_d self) 2"
    using m by (auto simp: calculate_d_def Let_def split: sum.splits if_splits)
  have bx: "\<exists>y. loss_event_frequency_d m = Finite y \<and>
           \<bar>y - x\<bar> \<le> 1 / 2000 + (\<bar>x\<bar> + 1 / 2000) / 2 ^ 53 + 1 / 2 ^ 1075"
    if "calculate_loss_event_frequency_d self = Finite x" "\<bar>x\<bar> \<le> 2 ^ 999"
    using py_round_d_close[OF that(2), of 3] that(1) by (simp add: lef)
  have bz: "\<exists>y. annual_loss_expectancy_d m = Finite y \<and>
           \<bar>y - z\<bar> \<le> 1 / 200 + (\<bar>z\<bar> + 1 / 200) / 2 ^ 53 + 1 / 2 ^ 1075"
    if "calculate_annual_loss_expectancy_d self = Finite z" "\<bar>z\<bar> \<le> 2 ^ 999"
    using py_round_d_close[OF that(2), of 2] that(1) by (simp add: ale)
  show ?thesis
    using m lef ale sle bx bz
    by (auto simp: calculate_annual_loss_expectancy_d_def calculate_loss_event_frequency_d_def
        calculate_single_loss_expectancy_d_def Let_def)
qed

text \<open>
  Instances of the amended C1, each input the double nearest to the decimal.  With threat
  event frequency 0.1, vulnerability 0.03 and loss magnitude 5 the methods give the doubles
  nearest to 0.003 and to 0.015, the latter just below 0.015, and the record holds 0.003
  and 0.01.  With threat event frequency 0.01 and vulnerability 0.75 the method gives the
  double just below 0.0075 and the record holds 0.007.
\<close>

theorem calculate_rounds_double_products_witness:
  "(\<exists>m. calculate_d \<lparr>asset_value_d = Finite 1000000,
            threat_event_frequency_d = Finite (3602879701896397 / 36028797018963968),
            vulnerability_d = Finite (1080863910568919 / 36028797018963968),
            loss_magnitude_d = Finite 5\<rparr> = Inr m \<and>
      loss_event_frequency_d m = Finite (3458764513820541 / 1152921504606846976) \<and>
      annual_loss_expectancy_d m = Finite (5764607523034235 / 576460752303423488) \<and>
      single_loss_expectancy_d m = Finite 5) \<and>
   calculate_loss_event_frequency_d \<lparr>asset_value_d = Finite 1000000,
            threat_event_frequency_d = Finite (3602879701896397 / 36028797018963968),
            vulnerability_d = Finite (1080863910568919 / 36028797018963968),
            loss_magnitude_d = Finite 5\<rparr> = Finite (3458764513820541 / 1152921504606846976) \<and>
   calculate_annual_loss_expectancy_d \<lparr>asset_value_d = Finite 1000000,
            threat_event_frequency_d = Finite (3602879701896397 / 36028797018963968),
            vulnerability_d = Finite (1080863910568919 / 36028797018963968),
            loss_magnitude_d = Finite 5\<rparr> = Finite (1080863910568919 / 72057594037927936) \<and>
   (\<exists>m. calculate_d \<lparr>asset_value_d = Finite 1000000,
            threat_event_frequency_d = Finite (5764607523034235 / 576460752303423488),
            vulnerability_d = Finite (3 / 4),
            loss_magnitude_d = Finite 5\<rparr> = Inr m \<and>
      loss_event_frequency_d m = Finite (8070450532247929 / 1152921504606846976)) \<and>
   calculate_loss_event_frequency_d \<lparr>asset_value_d = Finite 1000000,
            threat_event_frequency_d = Finite (5764607523034235 / 576460752303423488),
            vulnerability_d = Finite (3 / 4),
            loss_magnitude_d = Finite 5\<rparr> = Finite (1080863910568919 / 144115188075855872)"
proof -
  let ?S = "\<lparr>asset_value_d = Finite 1000000,
            threat_event_frequency_d = Finite (3602879701896397 / 36028797018963968),
            vulnerability_d = Finite (1080863910568919 / 36028797018963968),
            loss_magnitude_d = Finite 5\<rparr>"
  let ?T = "\<lparr>asset_value_d = Finite 1000000,
            threat_event_frequency_d = Finite (5764607523034235 / 576460752303423488),
            vulnerability_d = Finite (3 / 4),
            loss_magnitude_d = Finite 5\<rparr>"
  have p1: "calculate_loss_event_frequency_d ?S = Finite (3458764513820541 / 1152921504606846976)"
    using round_to_double_eval[of "- 9"
        "3602879701896397 / 36028797018963968 * (1080863910568919 / 36028797018963968)"]
    by (simp add: calculate_loss_event_frequency_d_def fmul_def rint_def)
  have p2: "calculate_annual_loss_expectancy_d ?S = Finite (1080863910568919 / 72057594037927936)"
    using round_to_double_eval[of "- 7" "3458764513820541 / 1152921504606846976 * 5"] p1
    by (simp add: calculate_annual_loss_expectancy_d_def fmul_def rint_def)
  have r1: "py_round_d (Finite (3458764513820541 / 1152921504606846976)) 3
              = Finite (3458764513820541 / 1152921504606846976)"
    using round_to_double_eval[of "- 9" "3 / 1000"] by (simp add: rint_def)
  have r2: "py_round_d (Finite (1080863910568919 / 72057594037927936)) 2
              = Finite (5764607523034235 / 576460752303423488)"
    using round_to_double_eval[of "- 7" "1 / 100"] by (simp add: rint_def)
  have r3: "py_round_d (Finite 5) 2 = Finite 5"
    using round_to_double_eval[of 2 5] by (simp add: rint_def)
  have q1: "calculate_loss_event_frequency_d ?T = Finite (1080863910568919 / 144115188075855872)"
    using round_to_double_eval[of "- 8" "5764607523034235 / 576460752303423488 * (3 / 4)"]
    by (simp add: calculate_loss_event_frequency_d_def fmul_def rint_def)
  have s1: "py_round_d (Finite (1080863910568919 / 144115188075855872)) 3
              = Finite (8070450532247929 / 1152921504606846976)"
    using round_to_double_eval[of "- 8" "7 / 1000"] by (simp add: rint_def)
  from calculate_rounds_double_products [of ?S "3458764513820541 / 1152921504606846976"
      "1080863910568919 / 72057594037927936"]
  obtain m where m: "calculate_d ?S = Inr m"
    "loss_event_frequency_d m = py_round_d (calculate_loss_event_frequency_d ?S) 3"
    "annual_loss_expectancy_d m = py_round_d (calculate_annual_loss_expectancy_d ?S) 2"
    "single_loss_expectancy_d m = py_round_d (calculate_single_loss_expectancy_d ?S) 2"
    by blast
  from calculate_rounds_double_products [of ?T "1080863910568919 / 144115188075855872" 0]
  obtain k where k: "calculate_d ?T = Inr k"
    "loss_event_frequency_d k = py_round_d (calculate_loss_event_frequency_d ?T) 3"
    by blast
  have a: "\<exists>m. calculate_d ?S = Inr m \<and>
      loss_event_frequency_d m = Finite (3458764513820541 / 1152921504606846976) \<and>
      annual_loss_expectancy_d m = Finite (5764607523034235 / 576460752303423488) \<and>
      single_loss_expectancy_d m = Finite 5"
    using m p1 p2 r1 r2 r3 by (simp add: calculate_single_loss_expectancy_d_def)
  have b: "\<exists>m. calculate_d ?T = Inr m \<and>
      loss_event_frequency_d m = Finite (8070450532247929 / 1152921504606846976)"
    using k q1 s1 by simp
  show ?thesis using a b p1 p2 q1 by blast
qed

text \<open>
  C8, amended: \<open>calculate\<close> never raises; for an asset value greater than 0 the returned
  risk exposure percentage is the annual loss expectancy of the method divided by the
  asset value and multiplied by 100, both in double arithmetic, passed through \<^verbatim>\<open>round\<close>
  to 2 decimals, and so within 0.005 plus one rounding to a double of that double; for an
  asset value that is not greater than 0 (zero, negative or \<^verbatim>\<open>nan\<close>) it is 0.
\<close>

theorem exposure_rounds_double_quotient:
  "\<exists>m. calculate_d self = Inr m \<and>
     (fgt (asset_value_d self) 0 \<longrightarrow>
        risk_exposure_percentage_d m =
          py_round_d (fmul (fdiv (calculate_annual_loss_expectancy_d self) (asset_value_d self))
                        (Finite 100)) 2) \<and>
     (\<not> fgt (asset_value_d self) 0 \<longrightarrow> risk_exposure_percentage_d m = Finite 0) \<and>
     (fgt (asset_value_d self) 0 \<and>
      fmul (fdiv (calculate_annual_loss_expectancy_d self) (asset_value_d self)) (Finite 100)
        = Finite p \<and> \<bar>p\<bar> \<le> 2 ^ 999 \<longrightarrow>
        (\<exists>y. risk_exposure_percentage_d m = Finite y \<and>
           \<bar>y - p\<bar> \<le> 1 / 200 + (\<bar>p\<bar> + 1 / 200) / 2 ^ 53 + 1 / 2 ^ 1075))"
proof (cases "fgt (asset_value_d self) 0")
  case True
  then have nz: "\<not> is_zero (asset_value_d self)" by (cases "asset_value_d self") simp_all
  obtain m where m: "calculate_d self = Inr m" using calculate_d_returns by blast
  have pct: "risk_exposure_percentage_d m =
          py_round_d (fmul (fdiv (calculate_annual_loss_expectancy_d self) (asset_value_d self))
                        (Finite 100)) 2"
    using m True nz by (auto simp: calculate_d_def py_truediv_def Let_def)
  have "\<exists>y. risk_exposure_percentage_d m = Finite y \<and>
           \<bar>y - p\<bar> \<le> 1 / 200 + (\<bar>p\<bar> + 1 / 200) / 2 ^ 53 + 1 / 2 ^ 1075"
    if "fmul (fdiv (calculate_annual_loss_expectancy_d self) (asset_value_d self)) (Finite 100)
        = Finite p" "\<bar>p\<bar> \<le> 2 ^ 999"
    using py_round_d_close[OF that(2), of 2] that(1) by (simp add: pct)
  then show ?thesis using m pct True by auto
next
  case False
  obtain m where m: "calculate_d self = Inr m" using calculate_d_returns by blast
  have "risk_exposure_percentage_d m = Finite 0"
    using m False by (auto simp: calculate_d_def Let_def rint_def round_to_double_zero)
  then show ?thesis using m False by auto
qed

text \<open>
  Instances of the amended C8: asset value 1,000,000 with threat event frequency 0.2,
  vulnerability 0.01 and loss magnitude 75,000, where the percentage computed is the double
  just below 0.015 and the record holds 0.01; an asset value of 0; and \<^verbatim>\<open>nan\<close>.
\<close>

theorem exposure_rounds_double_quotient_witness:
  "(\<exists>m. calculate_d \<lparr>asset_value_d = Finite 1000000,
            threat_event_frequency_d = Finite (3602879701896397 / 18014398509481984),
            vulnerability_d = Finite (5764607523034235 / 576460752303423488),
            loss_magnitude_d = Finite 75000\<rparr> = Inr m \<and>
      risk_exposure_percentage_d m = Finite (5764607523034235 / 576460752303423488)) \<and>
   fmul (fdiv (calculate_annual_loss_expectancy_d \<lparr>asset_value_d = Finite 1000000,
            threat_event_frequency_d = Finite (3602879701896397 / 18014398509481984),
            vulnerability_d = Finite (5764607523034235 / 576460752303423488),
            loss_magnitude_d = Finite 75000\<rparr>) (Finite 1000000)) (Finite 100)
     = Finite (1080863910568919 / 72057594037927936) \<and>
   (\<exists>m. calculate_d \<lparr>asset_value_d = Finite 0,
            threat_event_frequency_d = Finite 6,
            vulnerability_d = Finite (1 / 2),
            loss_magnitude_d = Finite 75000\<rparr> = Inr m \<and>
      risk_exposure_percentage_d m = Finite 0) \<and>
   (\<exists>m. calculate_d \<lparr>asset_value_d = NaN,
            threat_event_frequency_d = Finite 6,
            vulnerability_d = Finite (1 / 2),
            loss_magnitude_d = Finite 75000\<rparr> = Inr m \<and>
      risk_exposure_percentage_d m = Finite 0)"
proof -
  let ?S = "\<lparr>asset_value_d = Finite 1000000,
            threat_event_frequency_d = Finite (3602879701896397 / 18014398509481984),
            vulnerability_d = Finite (5764607523034235 / 576460752303423488),
            loss_magnitude_d = Finite 75000\<rparr>"
  have lef: "calculate_loss_event_frequency_d ?S = Finite (1152921504606847 / 576460752303423488)"
    using round_to_double_eval[of "- 9"
        "3602879701896397 / 18014398509481984 * (5764607523034235 / 576460752303423488)"]
    by (simp add: calculate_loss_event_frequency_d_def fmul_def rint_def)
  have ale: "calculate_annual_loss_expectancy_d ?S = Finite 150"
    using round_to_double_eval[of 7 "1152921504606847 / 576460752303423488 * 75000"] lef
    by (simp add: calculate_annual_loss_expectancy_d_def fmul_def rint_def)
  have q: "fdiv (Finite 150) (Finite 1000000) = Finite (5534023222112865 / 36893488147419103232)"
    using round_to_double_eval[of "- 13" "150 / 1000000"] by (simp add: fdiv_def rint_def)
  have pct: "fmul (Finite (5534023222112865 / 36893488147419103232)) (Finite 100)
               = Finite (1080863910568919 / 72057594037927936)"
    using round_to_double_eval[of "- 7" "5534023222112865 / 36893488147419103232 * 100"]
    by (simp add: fmul_def rint_def)
  have r: "py_round_d (Finite (1080863910568919 / 72057594037927936)) 2
              = Finite (5764607523034235 / 576460752303423488)"
    using round_to_double_eval[of "- 7" "1 / 100"] by (simp add: rint_def)
  have a: "\<exists>m. calculate_d ?S = Inr m \<and>
      risk_exposure_percentage_d m = Finite (5764607523034235 / 576460752303423488)"
    using exposure_rounds_double_quotient [of ?S "1080863910568919 / 72057594037927936"]
      ale q pct r by auto
  have b: "\<exists>m. calculate_d \<lparr>asset_value_d = Finite 0,
            threat_event_frequency_d = Finite 6,
            vulnerability_d = Finite (1 / 2),
            loss_magnitude_d = Finite 75000\<rparr> = Inr m \<and>
      risk_exposure_percentage_d m = Finite 0"
    using exposure_rounds_double_quotient [of "\<lparr>asset_value_d = Finite 0,
            threat_event_frequency_d = Finite 6,
            vulnerability_d = Finite (1 / 2),
            loss_magnitude_d = Finite 75000\<rparr>" 0] by auto
  have c: "\<exists>m. calculate_d \<lparr>asset_value_d = NaN,
            threat_event_frequency_d = Finite 6,
            vulnerability_d = Finite (1 / 2),
            loss_magnitude_d = Finite 75000\<rparr> = Inr m \<and>
      risk_exposure_percentage_d m = Finite 0"
    using exposure_rounds_double_quotient [of "\<lparr>asset_value_d = NaN,
            threat_event_frequency_d = Finite 6,
            vulnerability_d = Finite (1 / 2),
            loss_magnitude_d = Finite 75000\<rparr>" 0] by auto
  show ?thesis using a b c ale q pct by simp
qed

section \<open>The sample arrays and the outcome of a run\<close>

lemma map2_same: "map2 f (map a xs) (map b xs) = map (\<lambda>i. f (a i) (b i)) xs"
  by (induction xs) auto

lemma fst_ale_samples_of:
  "fst (ale_samples_of g t v l n) =
     (if width_overflows (fst t) (snd t) then Inl OverflowError
      else if n < 0 then Inl ValueError
      else if width_overflows (fst v) (snd v) \<or> width_overflows (fst l) (snd l)
      then Inl OverflowError
      else Inr (map (\<lambda>i. (fst t + (snd t - fst t) * g i)
                   * (fst v + (snd v - fst v) * g (i + nat n))
                   * (fst l + (snd l - fst l) * g (i + (nat n + nat n)))) [0..<nat n]))"
  by (simp add: ale_samples_of_def np_random_uniform_def Let_def map2_same add.assoc)

lemma ale_samples_of_closed:
  "0 \<le> n \<Longrightarrow> \<not> width_overflows (fst t) (snd t) \<Longrightarrow> \<not> width_overflows (fst v) (snd v) \<Longrightarrow>
   \<not> width_overflows (fst l) (snd l) \<Longrightarrow>
   ale_samples_of g t v l n =
     (Inr (map (\<lambda>i. (fst t + (snd t - fst t) * g i)
                   * (fst v + (snd v - fst v) * g (i + nat n))
                   * (fst l + (snd l - fst l) * g (i + (nat n + nat n)))) [0..<nat n]),
      \<lambda>i. g (i + (nat n + (nat n + nat n))))"
  by (simp add: ale_samples_of_def np_random_uniform_def Let_def map2_same add.assoc)

lemma ale_samples_of_length:
  "fst (ale_samples_of g t v l n) = Inr xs \<Longrightarrow> length xs = nat n \<and> 0 \<le> n"
  by (auto simp: fst_ale_samples_of split: if_splits)

lemma fst_mcs:
  "fst (monte_carlo_simulation self g t v l n) =
     (case fst (ale_samples_of g t v l n) of Inl e \<Rightarrow> Inl e | Inr xs \<Rightarrow> summarise n xs)"
  by (simp add: monte_carlo_simulation_def split: prod.splits sum.splits)

section \<open>Minimum, maximum and percentiles through the sorted array\<close>


lemma sort_not_Nil: "xs \<noteq> [] \<Longrightarrow> sort xs \<noteq> ([] :: real list)"
  by (metis length_0_conv length_sort)

lemma np_min_sort: "xs \<noteq> [] \<Longrightarrow> np_min xs = Inr (sort xs ! 0)"
proof -
  assume ne: "xs \<noteq> []"
  then obtain x r where xs: "xs = x # r" by (cases xs) auto
  have "fold min r x = Min (set xs)" using Min.set_eq_fold[of x r] by (simp add: xs)
  also have "\<dots> = Min (set (sort xs))" by simp
  also have "\<dots> = sort xs ! 0"
  proof (rule Min_eqI)
    show "finite (set (sort xs))" by simp
    show "sort xs ! 0 \<in> set (sort xs)" using ne by (simp del: set_sort)
    fix y assume "y \<in> set (sort xs)"
    then obtain i where "i < length (sort xs)" "sort xs ! i = y"
      by (auto simp: in_set_conv_nth simp del: set_sort)
    then show "sort xs ! 0 \<le> y"
      using sorted_nth_mono[of "sort xs" 0 i] by auto
  qed
  finally show ?thesis by (simp add: np_min_def xs)
qed

lemma np_max_sort: "xs \<noteq> [] \<Longrightarrow> np_max xs = Inr (sort xs ! (length xs - 1))"
proof -
  assume ne: "xs \<noteq> []"
  then obtain x r where xs: "xs = x # r" by (cases xs) auto
  have "fold max r x = Max (set xs)" using Max.set_eq_fold[of x r] by (simp add: xs)
  also have "\<dots> = Max (set (sort xs))" by simp
  also have "\<dots> = sort xs ! (length xs - 1)"
  proof (rule Max_eqI)
    show "finite (set (sort xs))" by simp
    show "sort xs ! (length xs - 1) \<in> set (sort xs)" using ne by (simp del: set_sort)
    fix y assume "y \<in> set (sort xs)"
    then obtain i where "i < length (sort xs)" "sort xs ! i = y"
      by (auto simp: in_set_conv_nth simp del: set_sort)
    then show "y \<le> sort xs ! (length xs - 1)"
      using sorted_nth_mono[of "sort xs" i "length xs - 1"] by auto
  qed
  finally show ?thesis by (simp add: np_max_def xs)
qed

lemma summarise_nonempty:
  "xs \<noteq> [] \<Longrightarrow> summarise n xs =
     Inr \<lparr>iterations = n,
          mean_ale = py_round (np_mean xs) 2,
          median_ale = py_round (np_median xs) 2,
          std_dev = py_round (np_std xs) 2,
          min_ale = py_round (sort xs ! 0) 2,
          max_ale = py_round (sort xs ! (length xs - 1)) 2,
          percentiles =
            \<lparr>p10th = py_round (np_percentile xs 10) 2,
             p25th = py_round (np_percentile xs 25) 2,
             p50th = py_round (np_percentile xs 50) 2,
             p75th = py_round (np_percentile xs 75) 2,
             p90th = py_round (np_percentile xs 90) 2,
             p95th = py_round (np_percentile xs 95) 2,
             p99th = py_round (np_percentile xs 99) 2\<rparr>,
          risk_distribution =
            \<lparr>low = np_sum_mask (\<lambda>x. x < 10000) xs,
             medium = np_sum_mask (\<lambda>x. x \<ge> 10000 \<and> x < 50000) xs,
             high = np_sum_mask (\<lambda>x. x \<ge> 50000 \<and> x < 200000) xs,
             critical = np_sum_mask (\<lambda>x. x \<ge> 200000) xs\<rparr>,
          confidence_95 =
            \<lparr>lower = py_round (np_percentile xs (5 / 2)) 2,
             upper = py_round (np_percentile xs (195 / 2)) 2\<rparr>\<rparr>"
  by (simp add: summarise_def np_min_sort np_max_sort Let_def)

lemma np_percentile_lerp:
  "np_percentile xs q = lerp_at (sort xs) (real (length xs - 1) * (q / 100))"
  by (simp only: np_percentile_def lerp_at_def Let_def length_sort)

lemma lerp_between:
  fixes a b t :: real
  assumes "a \<le> b" "0 \<le> t" "t \<le> 1"
  shows "a \<le> a + (b - a) * t" and "a + (b - a) * t \<le> b"
proof -
  have "0 \<le> (b - a) * t" using assms by simp
  then show "a \<le> a + (b - a) * t" by simp
  have "(b - a) * t \<le> (b - a) * 1" using assms by (intro mult_left_mono) simp_all
  then show "a + (b - a) * t \<le> b" by simp
qed

lemma floor_frac_bounds:
  fixes v :: real
  assumes "0 \<le> v"
  shows "0 \<le> v - real (nat \<lfloor>v\<rfloor>)" and "v - real (nat \<lfloor>v\<rfloor>) \<le> 1"
proof -
  have "real (nat \<lfloor>v\<rfloor>) = of_int \<lfloor>v\<rfloor>" using assms by simp
  then show "0 \<le> v - real (nat \<lfloor>v\<rfloor>)" and "v - real (nat \<lfloor>v\<rfloor>) \<le> 1" by linarith+
qed

lemma floor_index_less:
  fixes v :: real
  assumes "0 \<le> v" "v < real k"
  shows "nat \<lfloor>v\<rfloor> < k"
proof -
  have "\<lfloor>v\<rfloor> < int k" using assms by (simp add: floor_less_iff)
  then show ?thesis using assms by linarith
qed

lemma lerp_at_inner:
  assumes s: "sorted s" and v: "0 \<le> v" "v < real (length s - 1)"
  shows "s ! nat \<lfloor>v\<rfloor> \<le> lerp_at s v" and "lerp_at s v \<le> s ! (nat \<lfloor>v\<rfloor> + 1)"
proof -
  let ?i = "nat \<lfloor>v\<rfloor>"
  have i: "?i < length s - 1" using v by (rule floor_index_less)
  then have ab: "s ! ?i \<le> s ! (?i + 1)" using s by (intro sorted_nth_mono) simp_all
  have eq: "lerp_at s v = s ! ?i + (s ! (?i + 1) - s ! ?i) * (v - real ?i)"
    using v by (simp add: lerp_at_def)
  show "s ! ?i \<le> lerp_at s v"
    unfolding eq using ab floor_frac_bounds[OF v(1)] by (intro lerp_between)
  show "lerp_at s v \<le> s ! (?i + 1)"
    unfolding eq using ab floor_frac_bounds[OF v(1)] by (intro lerp_between)
qed

lemma lerp_at_lower:
  assumes s: "sorted s" and ne: "s \<noteq> []" and v: "0 \<le> v"
  shows "s ! 0 \<le> lerp_at s v"
proof (cases "v < real (length s - 1)")
  case True
  have i: "nat \<lfloor>v\<rfloor> < length s - 1" using v True by (rule floor_index_less)
  have "s ! 0 \<le> s ! nat \<lfloor>v\<rfloor>" using s i by (intro sorted_nth_mono) simp_all
  also have "\<dots> \<le> lerp_at s v" using s v True by (rule lerp_at_inner)
  finally show ?thesis .
next
  case False
  then have "lerp_at s v = s ! (length s - 1)" by (simp add: lerp_at_def)
  moreover have "s ! 0 \<le> s ! (length s - 1)" using s ne by (intro sorted_nth_mono) simp_all
  ultimately show ?thesis by simp
qed

lemma lerp_at_upper:
  assumes s: "sorted s" and ne: "s \<noteq> []" and v: "0 \<le> v"
  shows "lerp_at s v \<le> s ! (length s - 1)"
proof (cases "v < real (length s - 1)")
  case True
  have i: "nat \<lfloor>v\<rfloor> < length s - 1" using v True by (rule floor_index_less)
  have "lerp_at s v \<le> s ! (nat \<lfloor>v\<rfloor> + 1)" using s v True by (rule lerp_at_inner)
  also have "\<dots> \<le> s ! (length s - 1)" using s i by (intro sorted_nth_mono) simp_all
  finally show ?thesis .
next
  case False
  then show ?thesis by (simp add: lerp_at_def)
qed

lemma np_percentile_lower:
  assumes "xs \<noteq> []" "0 \<le> q"
  shows "sort xs ! 0 \<le> np_percentile xs q"
  unfolding np_percentile_lerp using assms by (intro lerp_at_lower) (simp_all add: sort_not_Nil)

lemma np_percentile_upper:
  assumes "xs \<noteq> []" "0 \<le> q"
  shows "np_percentile xs q \<le> sort xs ! (length xs - 1)"
  using lerp_at_upper[of "sort xs" "real (length xs - 1) * (q / 100)"] assms
  by (simp add: np_percentile_lerp sort_not_Nil)


lemmas sim_defs = monte_carlo_simulation_def summarise_def
     np_min_def np_max_def np_mean_def np_median_def np_std_def np_percentile_def np_sum_mask_def
     py_round_def rint_def Let_def width_overflows_def

section \<open>The simulator\<close>

lemma np_mean_replicate: "0 < k \<Longrightarrow> np_mean (replicate k c) = c"
  by (simp add: np_mean_def sum_list_replicate)

lemma np_median_replicate: "0 < k \<Longrightarrow> np_median (replicate k c) = c"
  by (auto simp: np_median_def Let_def elim: evenE)

lemma np_std_replicate: "0 < k \<Longrightarrow> np_std (replicate k c) = 0"
  by (simp add: np_std_def Let_def np_mean_replicate)

lemma np_percentile_replicate:
  assumes "0 < k" "0 \<le> q"
  shows "np_percentile (replicate k c) q = c"
proof -
  have ne: "replicate k c \<noteq> []" using assms by simp
  have "sort (replicate k c) ! 0 \<le> np_percentile (replicate k c) q"
    using ne assms(2) by (rule np_percentile_lower)
  moreover have "np_percentile (replicate k c) q \<le> sort (replicate k c) ! (length (replicate k c) - 1)"
    using ne assms(2) by (rule np_percentile_upper)
  ultimately show ?thesis using assms by simp
qed

lemma py_round_50000: "py_round 50000 2 = 50000"
  by (simp add: py_round_def rint_def)

text \<open>
  C9: for every iteration count \<open>n\<close> of at least 1 and every generator state, the
  simulation over the ranges (5, 5), (0.5, 0.5) and (20000, 20000) has all its \<open>n\<close> outcomes
  equal to 50,000; mean, median, minimum and maximum (and every percentile) are 50,000, the
  standard deviation is 0, and the high bucket counts all \<open>n\<close> samples.
\<close>

theorem degenerate_simulation:
  "1 \<le> n \<Longrightarrow>
     fst (ale_samples_of g (5, 5) (1 / 2, 1 / 2) (20000, 20000) n)
       = Inr (replicate (nat n) 50000) \<and>
     fst (monte_carlo_simulation self g (5, 5) (1 / 2, 1 / 2) (20000, 20000) n) =
       Inr \<lparr>iterations = n, mean_ale = 50000, median_ale = 50000, std_dev = 0,
            min_ale = 50000, max_ale = 50000,
            percentiles = \<lparr>p10th = 50000, p25th = 50000, p50th = 50000, p75th = 50000,
                           p90th = 50000, p95th = 50000, p99th = 50000\<rparr>,
            risk_distribution = \<lparr>low = 0, medium = 0, high = n, critical = 0\<rparr>,
            confidence_95 = \<lparr>lower = 50000, upper = 50000\<rparr>\<rparr>"
proof -
  assume n: "1 \<le> n"
  then have k: "0 < nat n" and n0: "0 \<le> n" by simp_all
  have samples: "fst (ale_samples_of g (5, 5) (1 / 2, 1 / 2) (20000, 20000) n)
       = Inr (replicate (nat n) 50000)"
    using n0 by (simp add: fst_ale_samples_of width_overflows_def map_replicate_const)
  have ne: "replicate (nat n) (50000::real) \<noteq> []" using k by simp
  have "summarise n (replicate (nat n) 50000) =
       Inr \<lparr>iterations = n, mean_ale = 50000, median_ale = 50000, std_dev = 0,
            min_ale = 50000, max_ale = 50000,
            percentiles = \<lparr>p10th = 50000, p25th = 50000, p50th = 50000, p75th = 50000,
                           p90th = 50000, p95th = 50000, p99th = 50000\<rparr>,
            risk_distribution = \<lparr>low = 0, medium = 0, high = n, critical = 0\<rparr>,
            confidence_95 = \<lparr>lower = 50000, upper = 50000\<rparr>\<rparr>"
    using k n0
    by (simp add: summarise_nonempty[OF ne] np_mean_replicate np_median_replicate
        np_std_replicate np_percentile_replicate py_round_50000 py_round_zero np_sum_mask_def)
  then show ?thesis using samples by (simp add: fst_mcs)
qed

text \<open>
  An instance of C9 with three iterations.
\<close>

theorem degenerate_simulation_witness:
  "(1::int) \<le> 3 \<and>
   fst (ale_samples_of (rng_replay [1 / 4, 1 / 2, 3 / 4] 0) (5, 5) (1 / 2, 1 / 2) (20000, 20000) 3)
     = Inr [50000, 50000, 50000] \<and>
   fst (monte_carlo_simulation \<lparr>asset_value = 1000000, threat_event_frequency = 5,
          vulnerability = 1 / 2, loss_magnitude = 20000\<rparr>
        (rng_replay [1 / 4, 1 / 2, 3 / 4] 0) (5, 5) (1 / 2, 1 / 2) (20000, 20000) 3) =
       Inr \<lparr>iterations = 3, mean_ale = 50000, median_ale = 50000, std_dev = 0,
            min_ale = 50000, max_ale = 50000,
            percentiles = \<lparr>p10th = 50000, p25th = 50000, p50th = 50000, p75th = 50000,
                           p90th = 50000, p95th = 50000, p99th = 50000\<rparr>,
            risk_distribution = \<lparr>low = 0, medium = 0, high = 3, critical = 0\<rparr>,
            confidence_95 = \<lparr>lower = 50000, upper = 50000\<rparr>\<rparr>"
  using degenerate_simulation [of 3 "rng_replay [1 / 4, 1 / 2, 3 / 4] 0"
      "\<lparr>asset_value = 1000000, threat_event_frequency = 5,
          vulnerability = 1 / 2, loss_magnitude = 20000\<rparr>"]
  by (simp add: numeral_3_eq_3)








text \<open>
  C7, as stated, fails: the simulator has no seed parameter and draws from the process-wide
  generator, so the same request (here one iteration, vulnerability from 0.25 to 0.75, the
  default ranges otherwise) gets different results in two generator states: every statistic
  is 2,500 with the unit draws 0 and 151,250 with the unit draws 1/2.
\<close>

theorem same_request_different_results_counterexample:
  "fst (run_monte_carlo (rng_replay [] 0)
          [''vuln_min'' \<mapsto> 1 / 4, ''vuln_max'' \<mapsto> 3 / 4, ''iterations'' \<mapsto> 1]) \<noteq>
   fst (run_monte_carlo (rng_replay [] (1 / 2))
          [''vuln_min'' \<mapsto> 1 / 4, ''vuln_max'' \<mapsto> 3 / 4, ''iterations'' \<mapsto> 1]) \<and>
   fst (monte_carlo_simulation \<lparr>asset_value = 0, threat_event_frequency = 11 / 2,
          vulnerability = 1 / 2, loss_magnitude = 55000\<rparr>
        (rng_replay [] 0) (1, 10) (1 / 4, 3 / 4) (10000, 100000) 1) \<noteq>
   fst (monte_carlo_simulation \<lparr>asset_value = 0, threat_event_frequency = 11 / 2,
          vulnerability = 1 / 2, loss_magnitude = 55000\<rparr>
        (rng_replay [] (1 / 2)) (1, 10) (1 / 4, 3 / 4) (10000, 100000) 1)"
  by (simp add: run_monte_carlo_def get_default_def py_int_def sim_defs ale_samples_of_closed
      rng_replay_def)

text \<open>
  C7, amended: the result of a simulation is determined by its ranges, its iteration count
  \<open>n\<close> and the first \<open>3 * n\<close> draws of the process-wide generator: two runs on the same
  ranges and count whose generators agree on these draws return identical results (or fail
  alike), whatever the calculator objects hold.
\<close>

theorem simulation_determined_by_draws:
  "\<forall>i < 3 * nat n. g1 i = g2 i \<Longrightarrow>
     fst (monte_carlo_simulation self1 g1 t v l n) = fst (monte_carlo_simulation self2 g2 t v l n)"
proof -
  assume eq: "\<forall>i < 3 * nat n. g1 i = g2 i"
  have "fst (ale_samples_of g1 t v l n) = fst (ale_samples_of g2 t v l n)"
    using eq by (simp add: fst_ale_samples_of)
  then show ?thesis by (simp add: fst_mcs)
qed

text \<open>
  An instance of the amended C7: two generator states that agree on the first three draws
  and differ afterwards, one iteration.
\<close>

theorem simulation_determined_by_draws_witness:
  "rng_replay [1 / 2, 1 / 2, 1 / 2] 0 0 = rng_replay [] (1 / 2) 0 \<and>
   rng_replay [1 / 2, 1 / 2, 1 / 2] 0 1 = rng_replay [] (1 / 2) 1 \<and>
   rng_replay [1 / 2, 1 / 2, 1 / 2] 0 2 = rng_replay [] (1 / 2) 2 \<and>
   rng_replay [1 / 2, 1 / 2, 1 / 2] 0 3 \<noteq> rng_replay [] (1 / 2) 3 \<and>
   fst (monte_carlo_simulation \<lparr>asset_value = 0, threat_event_frequency = 11 / 2,
          vulnerability = 1 / 2, loss_magnitude = 55000\<rparr>
        (rng_replay [1 / 2, 1 / 2, 1 / 2] 0) (1, 10) (1 / 2, 1 / 2) (1000, 1000) 1) =
   fst (monte_carlo_simulation \<lparr>asset_value = 1, threat_event_frequency = 1,
          vulnerability = 1, loss_magnitude = 1\<rparr>
        (rng_replay [] (1 / 2)) (1, 10) (1 / 2, 1 / 2) (1000, 1000) 1)"
proof -
  have h: "\<forall>i < 3 * nat 1. rng_replay [1 / 2, 1 / 2, 1 / 2] 0 i = rng_replay [] (1 / 2) i"
    by (simp add: rng_replay_def nth_Cons split: nat.splits)
  have d: "rng_replay [1 / 2, 1 / 2, 1 / 2] 0 3 \<noteq> rng_replay [] (1 / 2) 3"
    by (simp add: rng_replay_def)
  show ?thesis using h d simulation_determined_by_draws [OF h] by simp
qed

lemma negative_counts:
  "int (length (filter (\<lambda>x. x < 0) xs)) \<le> np_sum_mask (\<lambda>x. x < 10000) xs \<and>
   np_sum_mask (\<lambda>x. x \<ge> 10000 \<and> x < 50000) xs
     + np_sum_mask (\<lambda>x. x \<ge> 50000 \<and> x < 200000) xs + np_sum_mask (\<lambda>x. x \<ge> 200000) xs
     \<le> int (length (filter (\<lambda>x. 0 \<le> x) xs))"
  by (induction xs) (auto simp: np_sum_mask_def)

text \<open>
  C10: the classification covers the negative values: for every annual loss expectancy
  below 0, \<open>calculate_risk_level\<close> returns Low/green/P4, so \<open>calculate\<close> reports Low for every
  input whose formula value is negative; and in a simulation every negative outcome is
  counted in the low bucket and in no other: the low count is at least the number of
  negative outcomes, and the other three counts together are at most the number of
  non-negative ones.
\<close>

theorem negative_ale_is_low:
  "(ale < 0 \<longrightarrow>
      calculate_risk_level ale = \<lparr>level = ''Low'', color = ''green'', priority = ''P4''\<rparr>) \<and>
   (calculate_annual_loss_expectancy self < 0 \<longrightarrow>
      risk_level (calculate self) = ''Low'' \<and> risk_color (calculate self) = ''green'' \<and>
      risk_priority (calculate self) = ''P4'') \<and>
   (fst (ale_samples_of g t v l n) = Inr xs \<and> 1 \<le> n \<longrightarrow>
      (\<exists>r. fst (monte_carlo_simulation self g t v l n) = Inr r \<and>
         int (length (filter (\<lambda>x. x < 0) xs)) \<le> low (risk_distribution r) \<and>
         medium (risk_distribution r) + high (risk_distribution r)
           + critical (risk_distribution r) \<le> int (length (filter (\<lambda>x. 0 \<le> x) xs))))"
proof -
  have a: "ale < 0 \<longrightarrow>
      calculate_risk_level ale = \<lparr>level = ''Low'', color = ''green'', priority = ''P4''\<rparr>"
    by (simp add: calculate_risk_level_def)
  have b: "calculate_annual_loss_expectancy self < 0 \<longrightarrow>
      risk_level (calculate self) = ''Low'' \<and> risk_color (calculate self) = ''green'' \<and>
      risk_priority (calculate self) = ''P4''"
    by (simp add: calculate_def Let_def calculate_risk_level_def)
  have c: "fst (ale_samples_of g t v l n) = Inr xs \<and> 1 \<le> n \<longrightarrow>
      (\<exists>r. fst (monte_carlo_simulation self g t v l n) = Inr r \<and>
         int (length (filter (\<lambda>x. x < 0) xs)) \<le> low (risk_distribution r) \<and>
         medium (risk_distribution r) + high (risk_distribution r)
           + critical (risk_distribution r) \<le> int (length (filter (\<lambda>x. 0 \<le> x) xs)))"
  proof
    assume h: "fst (ale_samples_of g t v l n) = Inr xs \<and> 1 \<le> n"
    then have "length xs = nat n" using ale_samples_of_length[of g t v l n xs] by simp
    with h have ne: "xs \<noteq> []" by auto
    show "\<exists>r. fst (monte_carlo_simulation self g t v l n) = Inr r \<and>
         int (length (filter (\<lambda>x. x < 0) xs)) \<le> low (risk_distribution r) \<and>
         medium (risk_distribution r) + high (risk_distribution r)
           + critical (risk_distribution r) \<le> int (length (filter (\<lambda>x. 0 \<le> x) xs))"
      using h negative_counts[of xs] by (simp add: fst_mcs summarise_nonempty[OF ne])
  qed
  show ?thesis using a b c by blast
qed

text \<open>
  Instances of C10: a threat event frequency of -4 passes the handler and gives a negative
  annual loss expectancy classified Low, and a simulation over the range (-4, 4) counts its
  negative outcome in the low bucket.
\<close>

theorem negative_ale_is_low_witness:
  "calculate_risk_level (- 32768) = \<lparr>level = ''Low'', color = ''green'', priority = ''P4''\<rparr> \<and>
   calculate_annual_loss_expectancy \<lparr>asset_value = 1000000, threat_event_frequency = - 4,
          vulnerability = 1 / 2, loss_magnitude = 8192\<rparr> = - 16384 \<and>
   (\<exists>m. calculate_risk [''asset_value'' \<mapsto> 1000000, ''threat_event_frequency'' \<mapsto> - 4,
            ''vulnerability'' \<mapsto> 1 / 2, ''loss_magnitude'' \<mapsto> 8192] = Success m \<and>
        annual_loss_expectancy m = - 16384 \<and>
        risk_level m = ''Low'' \<and> risk_color m = ''green'' \<and> risk_priority m = ''P4'') \<and>
   fst (ale_samples_of (rng_replay [0, 3 / 4] (1 / 2)) (- 4, 4) (1 / 2, 1 / 2) (16384, 16384) 2)
     = Inr [- 32768, 16384] \<and>
   (\<exists>r. fst (monte_carlo_simulation \<lparr>asset_value = 1000000, threat_event_frequency = - 4,
          vulnerability = 1 / 2, loss_magnitude = 8192\<rparr>
        (rng_replay [0, 3 / 4] (1 / 2)) (- 4, 4) (1 / 2, 1 / 2) (16384, 16384) 2) = Inr r \<and>
      risk_distribution r = \<lparr>low = 1, medium = 1, high = 0, critical = 0\<rparr>)"
proof -
  have s: "fst (ale_samples_of (rng_replay [0, 3 / 4] (1 / 2)) (- 4, 4) (1 / 2, 1 / 2)
             (16384, 16384) 2) = Inr [- 32768, 16384]"
    by (simp add: ale_samples_of_closed width_overflows_def rng_replay_def upt_rec)
  have e: "calculate_annual_loss_expectancy \<lparr>asset_value = 1000000,
          threat_event_frequency = - 4, vulnerability = 1 / 2, loss_magnitude = 8192\<rparr> = - 16384"
    by (simp add: calc_defs)
  have m: "calculate_risk [''asset_value'' \<mapsto> 1000000, ''threat_event_frequency'' \<mapsto> - 4,
            ''vulnerability'' \<mapsto> 1 / 2, ''loss_magnitude'' \<mapsto> 8192] =
          Success (calculate \<lparr>asset_value = 1000000, threat_event_frequency = - 4,
            vulnerability = 1 / 2, loss_magnitude = 8192\<rparr>)"
    by (simp add: calculate_risk_def get_default_def)
  have a: "annual_loss_expectancy (calculate \<lparr>asset_value = 1000000,
          threat_event_frequency = - 4, vulnerability = 1 / 2, loss_magnitude = 8192\<rparr>) = - 16384"
    by (simp add: calc_defs py_round_def rint_def)
  from negative_ale_is_low [of "- 32768" "\<lparr>asset_value = 1000000,
          threat_event_frequency = - 4, vulnerability = 1 / 2, loss_magnitude = 8192\<rparr>"
        "rng_replay [0, 3 / 4] (1 / 2)" "(- 4, 4)" "(1 / 2, 1 / 2)" "(16384, 16384)" 2
        "[- 32768, 16384]"] s e
  obtain r where r: "fst (monte_carlo_simulation \<lparr>asset_value = 1000000,
          threat_event_frequency = - 4, vulnerability = 1 / 2, loss_magnitude = 8192\<rparr>
        (rng_replay [0, 3 / 4] (1 / 2)) (- 4, 4) (1 / 2, 1 / 2) (16384, 16384) 2) = Inr r"
    and lvl: "calculate_risk_level (- 32768) =
        \<lparr>level = ''Low'', color = ''green'', priority = ''P4''\<rparr>"
    and rl: "risk_level (calculate \<lparr>asset_value = 1000000,
          threat_event_frequency = - 4, vulnerability = 1 / 2, loss_magnitude = 8192\<rparr>) = ''Low''"
       "risk_color (calculate \<lparr>asset_value = 1000000,
          threat_event_frequency = - 4, vulnerability = 1 / 2, loss_magnitude = 8192\<rparr>) = ''green''"
       "risk_priority (calculate \<lparr>asset_value = 1000000,
          threat_event_frequency = - 4, vulnerability = 1 / 2, loss_magnitude = 8192\<rparr>) = ''P4''"
    by auto
  have d: "risk_distribution r = \<lparr>low = 1, medium = 1, high = 0, critical = 0\<rparr>"
    using r by (auto simp: fst_mcs s summarise_nonempty np_sum_mask_def)
  show ?thesis using s e m a lvl rl r d by simp
qed

section \<open>The bucket counts on doubles\<close>

lemma bucket_counts_d_sum:
  "low (risk_distribution_d xs) + medium (risk_distribution_d xs)
     + high (risk_distribution_d xs) + critical (risk_distribution_d xs)
   = int (length (filter (\<lambda>x. x \<noteq> NaN) xs))"
proof (induction xs)
  case Nil
  then show ?case by (simp add: risk_distribution_d_def)
next
  case (Cons x xs)
  then show ?case by (cases x) (auto simp: risk_distribution_d_def)
qed

text \<open>
  C3 at an input on which the code breaks it: the ranges \<open>(2 ^ 512, 2 ^ 512)\<close> for the
  threat event frequency and for the vulnerability, \<open>(0, 0)\<close> for the loss magnitude, and
  two iterations.  Both products of the samples overflow to infinity, infinity times 0 is
  \<^verbatim>\<open>nan\<close>, and \<^verbatim>\<open>nan\<close> satisfies none of the four masks: the counts are 0, 0, 0 and 0 and
  sum to 0, not to 2.  (By the lemma above the four counts always sum to the number of
  outcomes that are not \<^verbatim>\<open>nan\<close>.)
\<close>

theorem nan_outcomes_in_no_bucket:
  "fst (ale_samples_of_d g (Finite (2 ^ 512), Finite (2 ^ 512)) (Finite (2 ^ 512), Finite (2 ^ 512))
          (Finite 0, Finite 0) 2) = Inr [NaN, NaN] \<and>
   risk_distribution_d [NaN, NaN] = \<lparr>low = 0, medium = 0, high = 0, critical = 0\<rparr>"
proof -
  have big: "round_to_double (2 ^ 512) = Finite (2 ^ 512)"
    using round_to_double_eval[of 512 "2 ^ 512"] by (simp add: rint_def)
  have inf: "round_to_double (2 ^ 512 * 2 ^ 512) = PlusInf"
    using round_to_double_eval[of 1024 "2 ^ 512 * 2 ^ 512"] by (simp add: rint_def)
  have u1: "np_random_uniform_d h (Finite (2 ^ 512)) (Finite (2 ^ 512)) 2
              = (Inr [Finite (2 ^ 512), Finite (2 ^ 512)], \<lambda>i. h (i + 2))" for h
    using big
    by (simp add: np_random_uniform_d_def fsub_def fadd_def fmul_def round_to_double_zero
        Let_def upt_rec)
  have u2: "np_random_uniform_d h (Finite 0) (Finite 0) 2
              = (Inr [Finite 0, Finite 0], \<lambda>i. h (i + 2))" for h
    by (simp add: np_random_uniform_d_def fsub_def fadd_def fmul_def round_to_double_zero
        Let_def upt_rec)
  have m1: "fmul (Finite (2 ^ 512)) (Finite (2 ^ 512)) = PlusInf"
    using inf by (simp add: fmul_def)
  have m2: "fmul PlusInf (Finite 0) = NaN"
    by (simp add: fmul_def)
  have "fst (ale_samples_of_d g (Finite (2 ^ 512), Finite (2 ^ 512))
          (Finite (2 ^ 512), Finite (2 ^ 512)) (Finite 0, Finite 0) 2) = Inr [NaN, NaN]"
    unfolding ale_samples_of_d_def Let_def fst_conv snd_conv u1 u2 prod.case sum.case
    using m1 m2 by simp
  then show ?thesis by (simp add: risk_distribution_d_def)
qed

end
